theory Spec2Isabelle
  imports Main
begin

section \<open>The Pomodoro timer of \<open>extension.ts\<close>\<close>

text \<open>
  The development embeds the class \<open>PomodoroTimer\<close>: its fields, the host objects it drives
  (the status bar item, the interval timers of the event loop, the webview panel, the
  notifier) and its methods \<open>start\<close>, \<open>stop\<close>, \<open>reset\<close>, \<open>tick\<close>, \<open>onTimerEnd\<close>,
  \<open>playNotification\<close>, \<open>updateStatusBar\<close>, \<open>broadcastUpdate\<close>, \<open>toggleTimer\<close> and
  \<open>showPanel\<close>. Mutation of \<open>this\<close> is explicit state passing; \<open>Date.now()\<close> and the
  configuration read by \<open>vscode.workspace.getConfiguration\<close> are parameters of each call.

  JavaScript numbers are modelled as \<open>int\<close>: times are whole milliseconds, durations whole
  minutes, and every value stays far below \<open>2 ^ 53\<close>, where doubles are exact.

  The file also holds an earlier prototype made of module-level functions (\<open>startWork\<close>,
  \<open>startTimer\<close>, \<open>timerFinished\<close>, a fixed decrement per callback, no settings). It shares no
  state with the class and is not modelled here.
\<close>

subsection \<open>JavaScript arithmetic and strings\<close>

text \<open>
  \<open>a % b\<close> on integers: the result has the sign of the dividend, and it is \<open>NaN\<close> (here
  \<open>None\<close>) when the divisor is zero.
\<close>

definition trunc_rem :: "int \<Rightarrow> int \<Rightarrow> int" where
  "trunc_rem a b = sgn a * (\<bar>a\<bar> mod \<bar>b\<bar>)"

definition js_rem :: "int \<Rightarrow> int \<Rightarrow> int option" where
  "js_rem a b = (if b = 0 then None else Some (trunc_rem a b))"

text \<open>\<open>String(n)\<close> for an integer: decimal digits, with a minus sign when negative.\<close>

definition digit_char :: "nat \<Rightarrow> char" where
  "digit_char d = char_of (48 + d)"

fun decimal :: "nat \<Rightarrow> string" where
  "decimal n = (if n < 10 then [digit_char n] else decimal (n div 10) @ [digit_char (n mod 10)])"

declare decimal.simps [simp del]

definition String_int :: "int \<Rightarrow> string" where
  "String_int n = (if n < 0 then CHR ''-'' # decimal (nat (- n)) else decimal (nat n))"

text \<open>\<open>s.padStart(w, c)\<close> with a one-character pad string.\<close>

definition padStart :: "nat \<Rightarrow> char \<Rightarrow> string \<Rightarrow> string" where
  "padStart w c s = replicate (w - length s) c @ s"

text \<open>The non-ASCII symbols of the status bar, as their UTF-8 bytes.\<close>

definition icon_tomato :: string where
  "icon_tomato = [CHR 0xF0, CHR 0x9F, CHR 0x8D, CHR 0x85]"

definition icon_coffee :: string where
  "icon_coffee = [CHR 0xE2, CHR 0x98, CHR 0x95]"

definition mark_running :: string where
  "mark_running = [CHR 0xE2, CHR 0x97, CHR 0x8F]"

definition mark_stopped :: string where
  "mark_stopped = [CHR 0xE2, CHR 0x97, CHR 0x8B]"

subsection \<open>Configuration, effects and state\<close>

text \<open>
  The values \<open>config.get(key, default)\<close> returns for the six keys of the namespace
  \<open>pomodoroTimer\<close>; the host has already substituted the defaults.
\<close>

record config =
  workDuration :: int
  breakDuration :: int
  longBreakDuration :: int
  sessionsBeforeLongBreak :: int
  soundEnabled :: bool
  notificationEnabled :: bool

definition default_config :: config where
  "default_config = \<lparr>workDuration = 25, breakDuration = 5, longBreakDuration = 15,
     sessionsBeforeLongBreak = 4, soundEnabled = True, notificationEnabled = True\<rparr>"

text \<open>The \<open>state\<close> object that \<open>broadcastUpdate\<close> posts to the panel.\<close>

record panel_state =
  ps_isRunning :: bool
  ps_isWorkSession :: bool
  ps_timeLeft :: int
  ps_sessionsCompleted :: int
  ps_workDuration :: int
  ps_breakDuration :: int
  ps_longBreakDuration :: int
  ps_sessionsBeforeLongBreak :: int
  ps_soundEnabled :: bool
  ps_notificationEnabled :: bool

text \<open>What the timer asks of the host, in the order it asks.\<close>

datatype event =
    Beep
  | ShowInformationMessage string
  | PostMessage panel_state

text \<open>
  The fields of \<open>PomodoroTimer\<close>, followed by the part of the host the methods act on:
  the text and tooltip of the status bar item, whether a panel exists and is visible, the
  handles of the interval timers that are currently scheduled, the next fresh handle, and
  the log of effects.
\<close>

record pomodoro =
  timeLeft :: int
  isRunning :: bool
  isWorkSession :: bool
  sessionsCompleted :: int
  timer :: "nat option"
  lastUpdateTime :: int
  statusBarText :: string
  statusBarTooltip :: string
  panelVisible :: bool
  intervals :: "nat set"
  nextHandle :: nat
  effects :: "event list"

subsection \<open>The host's interval timers\<close>

text \<open>\<open>this.timer = setInterval(() => this.tick(), 100)\<close>: a fresh handle is scheduled.\<close>

definition setInterval :: "pomodoro \<Rightarrow> pomodoro" where
  "setInterval s = s\<lparr>timer := Some (nextHandle s),
                      intervals := insert (nextHandle s) (intervals s),
                      nextHandle := Suc (nextHandle s)\<rparr>"

definition clearInterval :: "nat \<Rightarrow> pomodoro \<Rightarrow> pomodoro" where
  "clearInterval h s = s\<lparr>intervals := intervals s - {h}\<rparr>"

subsection \<open>Presentation\<close>

definition timeStr :: "int \<Rightarrow> string" where
  "timeStr t =
     (let minutes = t div 60;
          seconds = trunc_rem t 60
      in padStart 2 CHR ''0'' (String_int minutes) @ '':'' @ padStart 2 CHR ''0'' (String_int seconds))"

definition updateStatusBar :: "pomodoro \<Rightarrow> pomodoro" where
  "updateStatusBar s =
     (let icon = (if isWorkSession s then icon_tomato else icon_coffee);
          status = (if isRunning s then mark_running else mark_stopped);
          sessionType = (if isWorkSession s then ''Work'' else ''Break'')
      in s\<lparr>statusBarText := icon @ '' '' @ sessionType @ '' '' @ timeStr (timeLeft s) @ '' '' @ status,
            statusBarTooltip := ''Sessions completed: '' @ String_int (sessionsCompleted s)\<rparr>)"

definition broadcastUpdate :: "config \<Rightarrow> pomodoro \<Rightarrow> pomodoro" where
  "broadcastUpdate cfg s =
     (if panelVisible s then
        s\<lparr>effects := effects s @ [PostMessage
          \<lparr>ps_isRunning = isRunning s,
           ps_isWorkSession = isWorkSession s,
           ps_timeLeft = timeLeft s,
           ps_sessionsCompleted = sessionsCompleted s,
           ps_workDuration = workDuration cfg,
           ps_breakDuration = breakDuration cfg,
           ps_longBreakDuration = longBreakDuration cfg,
           ps_sessionsBeforeLongBreak = sessionsBeforeLongBreak cfg,
           ps_soundEnabled = soundEnabled cfg,
           ps_notificationEnabled = notificationEnabled cfg\<rparr>]\<rparr>
      else s)"

subsection \<open>Notification\<close>

text \<open>
  \<open>beep\<close> catches every failure of the audio API itself, so it is the single effect
  \<open>Beep\<close>; the message shown is the tomato, a space and the text.
\<close>

definition playNotification :: "string \<Rightarrow> config \<Rightarrow> pomodoro \<Rightarrow> pomodoro" where
  "playNotification message cfg s =
     (let s1 = (if soundEnabled cfg then s\<lparr>effects := effects s @ [Beep]\<rparr> else s)
      in if notificationEnabled cfg
         then s1\<lparr>effects := effects s1 @ [ShowInformationMessage (icon_tomato @ '' '' @ message)]\<rparr>
         else s1)"

subsection \<open>The commands\<close>

definition constructor :: "int \<Rightarrow> pomodoro" where
  "constructor now =
     \<lparr>timeLeft = 0, isRunning = False, isWorkSession = True, sessionsCompleted = 0,
      timer = None, lastUpdateTime = now, statusBarText = [], statusBarTooltip = [],
      panelVisible = False, intervals = {}, nextHandle = 0, effects = []\<rparr>"

definition activate :: "pomodoro \<Rightarrow> pomodoro" where
  "activate s = updateStatusBar s"

definition isLongBreak :: "config \<Rightarrow> pomodoro \<Rightarrow> bool" where
  "isLongBreak cfg s \<longleftrightarrow>
     \<not> isWorkSession s \<and> sessionsCompleted s > 0 \<and>
     js_rem (sessionsCompleted s) (sessionsBeforeLongBreak cfg) = Some 0"

definition start :: "config \<Rightarrow> int \<Rightarrow> pomodoro \<Rightarrow> pomodoro" where
  "start cfg now s =
     (if isRunning s then s
      else
        let s1 = (if timeLeft s = 0 then
                    (if isWorkSession s then s\<lparr>timeLeft := workDuration cfg * 60\<rparr>
                     else s\<lparr>timeLeft := (if isLongBreak cfg s then longBreakDuration cfg * 60
                                          else breakDuration cfg * 60)\<rparr>)
                  else s);
            s2 = s1\<lparr>isRunning := True\<rparr>;
            s3 = s2\<lparr>lastUpdateTime := now\<rparr>;
            s4 = setInterval s3
        in broadcastUpdate cfg (updateStatusBar s4))"

definition stop :: "config \<Rightarrow> pomodoro \<Rightarrow> pomodoro" where
  "stop cfg s =
     (let s1 = (case timer s of Some h \<Rightarrow> clearInterval h s | None \<Rightarrow> s);
          s2 = s1\<lparr>timer := None\<rparr>;
          s3 = s2\<lparr>isRunning := False\<rparr>
      in broadcastUpdate cfg (updateStatusBar s3))"

definition reset :: "config \<Rightarrow> pomodoro \<Rightarrow> pomodoro" where
  "reset cfg s =
     (let s1 = stop cfg s;
          s2 = s1\<lparr>timeLeft := 0\<rparr>;
          s3 = s2\<lparr>isWorkSession := True\<rparr>;
          s4 = s3\<lparr>sessionsCompleted := 0\<rparr>
      in broadcastUpdate cfg (updateStatusBar s4))"

definition onTimerEnd :: "config \<Rightarrow> pomodoro \<Rightarrow> pomodoro" where
  "onTimerEnd cfg s =
     (let s1 = stop cfg s;
          s2 = (if isWorkSession s1 then
                  (let a = s1\<lparr>sessionsCompleted := sessionsCompleted s1 + 1\<rparr>;
                       b = playNotification ''Work session completed!'' cfg a;
                       c = b\<lparr>isWorkSession := False\<rparr>
                   in c\<lparr>timeLeft := 0\<rparr>)
                else
                  (let a = playNotification ''Break time over, ready to work!'' cfg s1;
                       b = a\<lparr>isWorkSession := True\<rparr>
                   in b\<lparr>timeLeft := 0\<rparr>))
      in broadcastUpdate cfg (updateStatusBar s2))"

definition tick :: "config \<Rightarrow> int \<Rightarrow> pomodoro \<Rightarrow> pomodoro" where
  "tick cfg now s =
     (let elapsed = (now - lastUpdateTime s) div 1000
      in if elapsed \<ge> 1 then
           (let s1 = s\<lparr>timeLeft := timeLeft s - elapsed\<rparr>;
                s2 = s1\<lparr>lastUpdateTime := now\<rparr>
            in if timeLeft s2 \<le> 0 then onTimerEnd cfg s2
               else broadcastUpdate cfg (updateStatusBar s2))
         else s)"

definition toggleTimer :: "config \<Rightarrow> int \<Rightarrow> pomodoro \<Rightarrow> pomodoro" where
  "toggleTimer cfg now s = (if isRunning s then stop cfg s else start cfg now s)"

text \<open>\<open>showPanel\<close> creates the panel when there is none, reveals it and broadcasts.\<close>

definition showPanel :: "config \<Rightarrow> pomodoro \<Rightarrow> pomodoro" where
  "showPanel cfg s = broadcastUpdate cfg (s\<lparr>panelVisible := True\<rparr>)"

subsection \<open>The event loop\<close>

text \<open>
  What can happen to a timer after activation: the commands of the status bar and of the
  panel, the user hiding or closing the panel, and the callback of an interval timer, which
  the event loop runs only while its handle is scheduled. Every callback registered by
  \<open>start\<close> is \<open>() => this.tick()\<close>.
\<close>

datatype command = Start | Stop | Reset | Toggle | ShowPanel | HidePanel | Fire nat

definition fire :: "config \<Rightarrow> int \<Rightarrow> nat \<Rightarrow> pomodoro \<Rightarrow> pomodoro" where
  "fire cfg now h s = (if h \<in> intervals s then tick cfg now s else s)"

fun exec :: "config \<Rightarrow> int \<Rightarrow> command \<Rightarrow> pomodoro \<Rightarrow> pomodoro" where
  "exec cfg now Start s = start cfg now s"
| "exec cfg now Stop s = stop cfg s"
| "exec cfg now Reset s = reset cfg s"
| "exec cfg now Toggle s = toggleTimer cfg now s"
| "exec cfg now ShowPanel s = showPanel cfg s"
| "exec cfg now HidePanel s = s\<lparr>panelVisible := False\<rparr>"
| "exec cfg now (Fire h) s = fire cfg now h s"

text \<open>The settings as the data model of the specification types them: positive integers.\<close>

definition valid_config :: "config \<Rightarrow> bool" where
  "valid_config cfg \<longleftrightarrow>
     0 < workDuration cfg \<and> 0 < breakDuration cfg \<and> 0 < longBreakDuration cfg \<and>
     0 < sessionsBeforeLongBreak cfg"

text \<open>
  The states a timer can be in: the one activation creates, and every state a command or a
  callback leads to, whatever the clock shows and whatever valid settings are in force at
  that moment.
\<close>

inductive reachable :: "pomodoro \<Rightarrow> bool" where
  reachable_init: "reachable (activate (constructor now))"
| reachable_step: "reachable s \<Longrightarrow> valid_config cfg \<Longrightarrow> reachable (exec cfg now c s)"

subsection \<open>Vocabulary of the properties\<close>

text \<open>
  The driver discipline: the timer counts as running exactly when it holds a handle, and
  the scheduled interval timers are exactly that handle.
\<close>

definition driver_inv :: "pomodoro \<Rightarrow> bool" where
  "driver_inv s \<longleftrightarrow> (isRunning s \<longleftrightarrow> timer s \<noteq> None) \<and> intervals s = set_option (timer s)"

text \<open>
  The range of the counters: the remaining time is never negative and is positive while
  running, and the number of completed sessions is never negative.
\<close>

definition count_inv :: "pomodoro \<Rightarrow> bool" where
  "count_inv s \<longleftrightarrow>
     0 \<le> timeLeft s \<and> (isRunning s \<longrightarrow> 0 < timeLeft s) \<and> 0 \<le> sessionsCompleted s"

text \<open>The effects that reach the user as a notification, without the panel traffic.\<close>

fun is_notification :: "event \<Rightarrow> bool" where
  "is_notification Beep = True"
| "is_notification (ShowInformationMessage m) = True"
| "is_notification (PostMessage p) = False"

definition notifications :: "event list \<Rightarrow> event list" where
  "notifications es = filter is_notification es"

text \<open>
  One notification with the text \<open>m\<close>: the chime when sound is enabled, then the message
  when notifications are enabled.
\<close>

definition notification_events :: "string \<Rightarrow> config \<Rightarrow> event list" where
  "notification_events m cfg =
     (if soundEnabled cfg then [Beep] else []) @
     (if notificationEnabled cfg then [ShowInformationMessage (icon_tomato @ '' '' @ m)] else [])"

text \<open>A number below 100 written with two digits, a larger one with all its digits.\<close>

definition zero_pad2 :: "nat \<Rightarrow> string" where
  "zero_pad2 n = (if n < 10 then [CHR ''0'', digit_char n] else decimal n)"

text \<open>
  The status bar is up to date: rendering the state again would write the text and the
  tooltip that are already there.
\<close>

definition shown :: "pomodoro \<Rightarrow> bool" where
  "shown s \<longleftrightarrow>
     statusBarText (updateStatusBar s) = statusBarText s \<and>
     statusBarTooltip (updateStatusBar s) = statusBarTooltip s"

text \<open>Reading a string of decimal digits back as a number.\<close>

definition dec_value :: "string \<Rightarrow> nat" where
  "dec_value cs = foldl (\<lambda>a c. 10 * a + (of_char c - 48)) 0 cs"

subsection \<open>Example states\<close>

definition fresh :: pomodoro where
  "fresh = activate (constructor 0)"

text \<open>A work interval of 25 minutes, started at time 0.\<close>

definition counting_example :: pomodoro where
  "counting_example = start default_config 0 fresh"

text \<open>The same interval, paused before the first second has passed.\<close>

definition paused_example :: pomodoro where
  "paused_example = stop default_config counting_example"

text \<open>
  A break that follows the fourth and one that follows the third completed work session.
\<close>

definition break_after_four :: pomodoro where
  "break_after_four = fresh\<lparr>isWorkSession := False, sessionsCompleted := 4\<rparr>"

definition break_after_three :: pomodoro where
  "break_after_three = fresh\<lparr>isWorkSession := False, sessionsCompleted := 3\<rparr>"

text \<open>Settings whose work interval lasts zero minutes.\<close>

definition zero_work_config :: config where
  "zero_work_config = default_config\<lparr>workDuration := 0\<rparr>"

text \<open>
  The state after the whole work interval has elapsed, and the break started right then.
\<close>

definition work_done_example :: pomodoro where
  "work_done_example = tick default_config 1500000 counting_example"

definition break_counting_example :: pomodoro where
  "break_counting_example = start default_config 1500000 work_done_example"

section \<open>What each method does to each field\<close>

lemma updateStatusBar_fields [simp]:
  "timeLeft (updateStatusBar s) = timeLeft s"
  "isRunning (updateStatusBar s) = isRunning s"
  "isWorkSession (updateStatusBar s) = isWorkSession s"
  "sessionsCompleted (updateStatusBar s) = sessionsCompleted s"
  "timer (updateStatusBar s) = timer s"
  "lastUpdateTime (updateStatusBar s) = lastUpdateTime s"
  "panelVisible (updateStatusBar s) = panelVisible s"
  "intervals (updateStatusBar s) = intervals s"
  "nextHandle (updateStatusBar s) = nextHandle s"
  "effects (updateStatusBar s) = effects s"
  by (simp_all add: updateStatusBar_def Let_def)

lemma broadcastUpdate_fields [simp]:
  "timeLeft (broadcastUpdate cfg s) = timeLeft s"
  "isRunning (broadcastUpdate cfg s) = isRunning s"
  "isWorkSession (broadcastUpdate cfg s) = isWorkSession s"
  "sessionsCompleted (broadcastUpdate cfg s) = sessionsCompleted s"
  "timer (broadcastUpdate cfg s) = timer s"
  "lastUpdateTime (broadcastUpdate cfg s) = lastUpdateTime s"
  "statusBarText (broadcastUpdate cfg s) = statusBarText s"
  "statusBarTooltip (broadcastUpdate cfg s) = statusBarTooltip s"
  "panelVisible (broadcastUpdate cfg s) = panelVisible s"
  "intervals (broadcastUpdate cfg s) = intervals s"
  "nextHandle (broadcastUpdate cfg s) = nextHandle s"
  by (simp_all add: broadcastUpdate_def)

lemma broadcastUpdate_notifications [simp]:
  "notifications (effects (broadcastUpdate cfg s)) = notifications (effects s)"
  by (simp add: broadcastUpdate_def notifications_def)

lemma playNotification_fields [simp]:
  "timeLeft (playNotification m cfg s) = timeLeft s"
  "isRunning (playNotification m cfg s) = isRunning s"
  "isWorkSession (playNotification m cfg s) = isWorkSession s"
  "sessionsCompleted (playNotification m cfg s) = sessionsCompleted s"
  "timer (playNotification m cfg s) = timer s"
  "lastUpdateTime (playNotification m cfg s) = lastUpdateTime s"
  "statusBarText (playNotification m cfg s) = statusBarText s"
  "statusBarTooltip (playNotification m cfg s) = statusBarTooltip s"
  "panelVisible (playNotification m cfg s) = panelVisible s"
  "intervals (playNotification m cfg s) = intervals s"
  "nextHandle (playNotification m cfg s) = nextHandle s"
  by (simp_all add: playNotification_def Let_def)

lemma playNotification_notifications [simp]:
  "notifications (effects (playNotification m cfg s)) =
     notifications (effects s) @ notification_events m cfg"
  by (simp add: playNotification_def notifications_def notification_events_def Let_def)

lemma stop_fields [simp]:
  "timeLeft (stop cfg s) = timeLeft s"
  "isRunning (stop cfg s) = False"
  "isWorkSession (stop cfg s) = isWorkSession s"
  "sessionsCompleted (stop cfg s) = sessionsCompleted s"
  "timer (stop cfg s) = None"
  "lastUpdateTime (stop cfg s) = lastUpdateTime s"
  "panelVisible (stop cfg s) = panelVisible s"
  "intervals (stop cfg s) = intervals s - set_option (timer s)"
  "nextHandle (stop cfg s) = nextHandle s"
  "notifications (effects (stop cfg s)) = notifications (effects s)"
  by (simp_all add: stop_def Let_def clearInterval_def split: option.splits)

lemma reset_fields [simp]:
  "timeLeft (reset cfg s) = 0"
  "isRunning (reset cfg s) = False"
  "isWorkSession (reset cfg s) = True"
  "sessionsCompleted (reset cfg s) = 0"
  "timer (reset cfg s) = None"
  "lastUpdateTime (reset cfg s) = lastUpdateTime s"
  "panelVisible (reset cfg s) = panelVisible s"
  "intervals (reset cfg s) = intervals s - set_option (timer s)"
  "nextHandle (reset cfg s) = nextHandle s"
  "notifications (effects (reset cfg s)) = notifications (effects s)"
  by (simp_all add: reset_def Let_def)

lemma onTimerEnd_fields [simp]:
  "timeLeft (onTimerEnd cfg s) = 0"
  "isRunning (onTimerEnd cfg s) = False"
  "isWorkSession (onTimerEnd cfg s) = (\<not> isWorkSession s)"
  "sessionsCompleted (onTimerEnd cfg s) =
     (if isWorkSession s then sessionsCompleted s + 1 else sessionsCompleted s)"
  "timer (onTimerEnd cfg s) = None"
  "lastUpdateTime (onTimerEnd cfg s) = lastUpdateTime s"
  "panelVisible (onTimerEnd cfg s) = panelVisible s"
  "intervals (onTimerEnd cfg s) = intervals s - set_option (timer s)"
  "nextHandle (onTimerEnd cfg s) = nextHandle s"
  "notifications (effects (onTimerEnd cfg s)) =
     notifications (effects s) @
     notification_events (if isWorkSession s then ''Work session completed!''
                          else ''Break time over, ready to work!'') cfg"
  by (simp_all add: onTimerEnd_def Let_def)

lemma start_running: "isRunning s \<Longrightarrow> start cfg now s = s"
  by (simp add: start_def)

lemma start_fields:
  assumes "\<not> isRunning s"
  shows "timeLeft (start cfg now s) =
           (if timeLeft s = 0 then
              (if isWorkSession s then workDuration cfg * 60
               else if isLongBreak cfg s then longBreakDuration cfg * 60 else breakDuration cfg * 60)
            else timeLeft s)"
    and "isWorkSession (start cfg now s) = isWorkSession s"
    and "sessionsCompleted (start cfg now s) = sessionsCompleted s"
    and "timer (start cfg now s) = Some (nextHandle s)"
    and "lastUpdateTime (start cfg now s) = now"
    and "panelVisible (start cfg now s) = panelVisible s"
    and "intervals (start cfg now s) = insert (nextHandle s) (intervals s)"
    and "nextHandle (start cfg now s) = Suc (nextHandle s)"
    and "notifications (effects (start cfg now s)) = notifications (effects s)"
  using assms by (simp_all add: start_def Let_def setInterval_def)

lemma start_isRunning [simp]: "isRunning (start cfg now s)"
  by (simp add: start_def Let_def setInterval_def)

lemma tick_idle: "(now - lastUpdateTime s) div 1000 < 1 \<Longrightarrow> tick cfg now s = s"
  by (simp add: tick_def Let_def)

lemma tick_expire:
  assumes "1 \<le> (now - lastUpdateTime s) div 1000"
    and "timeLeft s - (now - lastUpdateTime s) div 1000 \<le> 0"
  shows "tick cfg now s =
           onTimerEnd cfg (s\<lparr>timeLeft := timeLeft s - (now - lastUpdateTime s) div 1000,
                             lastUpdateTime := now\<rparr>)"
  using assms by (simp add: tick_def Let_def)

lemma tick_count:
  assumes "1 \<le> (now - lastUpdateTime s) div 1000"
    and "0 < timeLeft s - (now - lastUpdateTime s) div 1000"
  shows "timeLeft (tick cfg now s) = timeLeft s - (now - lastUpdateTime s) div 1000"
    and "lastUpdateTime (tick cfg now s) = now"
    and "isRunning (tick cfg now s) = isRunning s"
    and "isWorkSession (tick cfg now s) = isWorkSession s"
    and "sessionsCompleted (tick cfg now s) = sessionsCompleted s"
    and "timer (tick cfg now s) = timer s"
    and "intervals (tick cfg now s) = intervals s"
    and "panelVisible (tick cfg now s) = panelVisible s"
    and "nextHandle (tick cfg now s) = nextHandle s"
    and "notifications (effects (tick cfg now s)) = notifications (effects s)"
  using assms by (simp_all add: tick_def Let_def)

subsection \<open>Invariants of the reachable states\<close>

lemma driver_inv_start: "driver_inv s \<Longrightarrow> driver_inv (start cfg now s)"
  by (cases "isRunning s") (simp_all add: start_running driver_inv_def start_fields)

lemma driver_inv_stop: "driver_inv s \<Longrightarrow> driver_inv (stop cfg s)"
  by (simp add: driver_inv_def)

lemma driver_inv_reset: "driver_inv s \<Longrightarrow> driver_inv (reset cfg s)"
  by (simp add: driver_inv_def)

lemma count_inv_start:
  assumes "count_inv s" and "valid_config cfg"
  shows "count_inv (start cfg now s)"
proof (cases "isRunning s")
  case True
  then show ?thesis using assms by (simp add: start_running)
next
  case False
  with assms show ?thesis
    by (simp add: count_inv_def start_fields valid_config_def)
qed

lemma count_inv_stop: "count_inv s \<Longrightarrow> count_inv (stop cfg s)"
  by (simp add: count_inv_def)

lemma count_inv_reset: "count_inv (reset cfg s)"
  by (simp add: count_inv_def)

lemma tick_cases:
  obtains (idle) "(now - lastUpdateTime s) div 1000 < 1"
  | (expire) "1 \<le> (now - lastUpdateTime s) div 1000"
      "timeLeft s - (now - lastUpdateTime s) div 1000 \<le> 0"
  | (count) "1 \<le> (now - lastUpdateTime s) div 1000"
      "0 < timeLeft s - (now - lastUpdateTime s) div 1000"
  by linarith

lemma driver_inv_tick:
  assumes "driver_inv s"
  shows "driver_inv (tick cfg now s)"
proof (cases now s rule: tick_cases)
  case idle
  then show ?thesis using assms by (simp add: tick_idle)
next
  case expire
  then show ?thesis using assms by (simp add: tick_expire driver_inv_def)
next
  case count
  then show ?thesis using assms by (simp add: tick_count driver_inv_def)
qed

lemma count_inv_tick:
  assumes "count_inv s"
  shows "count_inv (tick cfg now s)"
proof (cases now s rule: tick_cases)
  case idle
  then show ?thesis using assms by (simp add: tick_idle)
next
  case expire
  then show ?thesis using assms by (simp add: tick_expire count_inv_def)
next
  case count
  then show ?thesis using assms by (simp add: tick_count count_inv_def)
qed

lemma driver_inv_exec:
  assumes "driver_inv s"
  shows "driver_inv (exec cfg now c s)"
proof (cases c)
  case Start
  then show ?thesis using assms by (simp add: driver_inv_start)
next
  case Stop
  then show ?thesis using assms by (simp add: driver_inv_stop)
next
  case Reset
  then show ?thesis using assms by (simp add: driver_inv_reset)
next
  case Toggle
  then show ?thesis using assms by (simp add: toggleTimer_def driver_inv_start driver_inv_stop)
next
  case ShowPanel
  then show ?thesis using assms by (simp add: showPanel_def driver_inv_def)
next
  case HidePanel
  then show ?thesis using assms by (simp add: driver_inv_def)
next
  case (Fire h)
  then show ?thesis using assms by (simp add: fire_def driver_inv_tick)
qed

lemma count_inv_exec:
  assumes "count_inv s" and "valid_config cfg"
  shows "count_inv (exec cfg now c s)"
proof (cases c)
  case Start
  then show ?thesis using assms by (simp add: count_inv_start)
next
  case Stop
  then show ?thesis using assms by (simp add: count_inv_stop)
next
  case Reset
  then show ?thesis by (simp add: count_inv_reset)
next
  case Toggle
  then show ?thesis using assms by (simp add: toggleTimer_def count_inv_start count_inv_stop)
next
  case ShowPanel
  then show ?thesis using assms by (simp add: showPanel_def count_inv_def)
next
  case HidePanel
  then show ?thesis using assms by (simp add: count_inv_def)
next
  case (Fire h)
  then show ?thesis using assms by (simp add: fire_def count_inv_tick)
qed

lemma reachable_driver_inv: "reachable s \<Longrightarrow> driver_inv s"
proof (induction rule: reachable.induct)
  case (reachable_init now)
  show ?case by (simp add: driver_inv_def activate_def) (simp add: constructor_def)
next
  case (reachable_step s cfg now c)
  then show ?case by (simp add: driver_inv_exec)
qed

lemma reachable_count_inv: "reachable s \<Longrightarrow> count_inv s"
proof (induction rule: reachable.induct)
  case (reachable_init now)
  show ?case by (simp add: count_inv_def activate_def) (simp add: constructor_def)
next
  case (reachable_step s cfg now c)
  then show ?case by (simp add: count_inv_exec)
qed

lemma reachable_stopped_no_driver: "reachable s \<Longrightarrow> \<not> isRunning s \<Longrightarrow> intervals s = {}"
  by (drule reachable_driver_inv) (simp add: driver_inv_def)

lemma reachable_cancelled: "reachable s \<Longrightarrow> intervals s - set_option (timer s) = {}"
  by (drule reachable_driver_inv) (simp add: driver_inv_def)

subsection \<open>The remainder and the long-break test\<close>

lemma trunc_rem_nonneg: "0 \<le> a \<Longrightarrow> 0 < b \<Longrightarrow> trunc_rem a b = a mod b"
  by (cases "a = 0") (simp_all add: trunc_rem_def)

lemma js_rem_zero_iff: "0 < a \<Longrightarrow> js_rem a b = Some 0 \<longleftrightarrow> a mod b = 0"
proof (cases "b = 0")
  case True
  assume "0 < a"
  with True show ?thesis by (simp add: js_rem_def)
next
  case False
  assume pos: "0 < a"
  have "\<bar>a\<bar> mod \<bar>b\<bar> = 0 \<longleftrightarrow> a mod b = 0"
    by (simp add: mod_eq_0_iff_dvd)
  with False pos show ?thesis
    by (simp add: js_rem_def trunc_rem_def)
qed

lemma isLongBreak_iff:
  "isLongBreak cfg s \<longleftrightarrow>
     \<not> isWorkSession s \<and> 0 < sessionsCompleted s \<and>
     sessionsCompleted s mod sessionsBeforeLongBreak cfg = 0"
  using js_rem_zero_iff [of "sessionsCompleted s" "sessionsBeforeLongBreak cfg"]
  by (auto simp: isLongBreak_def)

subsection \<open>Decimal numerals\<close>

lemma decimal_small: "n < 10 \<Longrightarrow> decimal n = [digit_char n]"
  by (simp add: decimal.simps)

lemma decimal_large: "10 \<le> n \<Longrightarrow> decimal n = decimal (n div 10) @ [digit_char (n mod 10)]"
  by (subst decimal.simps) simp

lemma length_decimal_pos: "0 < length (decimal n)"
  by (subst decimal.simps) simp

lemma length_decimal_large:
  assumes "10 \<le> n"
  shows "2 \<le> length (decimal n)"
proof -
  have "length (decimal n) = length (decimal (n div 10)) + 1"
    using assms by (simp add: decimal_large)
  with length_decimal_pos [of "n div 10"] show ?thesis by linarith
qed

lemma digit_char_0: "digit_char 0 = CHR ''0''"
  by (simp add: digit_char_def char_of_eq_iff)

lemma of_char_digit: "d < 10 \<Longrightarrow> of_char (digit_char d) = 48 + d"
  by (simp add: digit_char_def)

lemma dec_value_snoc: "dec_value (cs @ [c]) = 10 * dec_value cs + (of_char c - 48)"
  by (simp add: dec_value_def)

lemma dec_value_decimal: "dec_value (decimal n) = n"
proof (induction n rule: decimal.induct)
  case (1 n)
  show ?case
  proof (cases "n < 10")
    case True
    then show ?thesis by (simp add: decimal_small dec_value_def of_char_digit)
  next
    case False
    then have "dec_value (decimal n) = 10 * dec_value (decimal (n div 10)) + (n mod 10)"
      by (simp add: decimal_large dec_value_snoc of_char_digit)
    with False "1.IH" show ?thesis by simp
  qed
qed

lemma padStart_zero_pad2: "padStart 2 CHR ''0'' (decimal n) = zero_pad2 n"
proof (cases "n < 10")
  case True
  then show ?thesis by (simp add: padStart_def zero_pad2_def decimal_small)
next
  case False
  then have "2 \<le> length (decimal n)" by (simp add: length_decimal_large)
  with False show ?thesis by (simp add: padStart_def zero_pad2_def)
qed

lemma zero_pad2_below_100:
  "n < 100 \<Longrightarrow> zero_pad2 n = [digit_char (n div 10), digit_char (n mod 10)]"
  by (cases "n < 10") (simp_all add: zero_pad2_def decimal_large decimal_small digit_char_0)

lemma dec_value_zero_pad2: "dec_value (zero_pad2 n) = n"
proof (cases "n < 10")
  case True
  then show ?thesis by (simp add: zero_pad2_def dec_value_def of_char_digit digit_char_def)
next
  case False
  then show ?thesis by (simp add: zero_pad2_def dec_value_decimal)
qed

lemma length_zero_pad2: "2 \<le> length (zero_pad2 n)"
  by (simp add: zero_pad2_def length_decimal_large)


subsection \<open>Facts about the example states\<close>

lemma valid_default_config: "valid_config default_config"
  by (simp add: valid_config_def default_config_def)

lemma reachable_fresh: "reachable fresh"
  unfolding fresh_def by (rule reachable_init)

lemma reachable_counting_example: "reachable counting_example"
  using reachable_step [OF reachable_fresh valid_default_config, of 0 Start]
  by (simp add: counting_example_def)

lemma reachable_paused_example: "reachable paused_example"
  using reachable_step [OF reachable_counting_example valid_default_config, of 0 Stop]
  by (simp add: paused_example_def)

lemma fresh_fields:
  "timeLeft fresh = 0" "\<not> isRunning fresh" "isWorkSession fresh" "sessionsCompleted fresh = 0"
  "timer fresh = None" "lastUpdateTime fresh = 0" "intervals fresh = {}" "nextHandle fresh = 0"
  by (simp_all add: fresh_def activate_def) (simp_all add: constructor_def)

lemma counting_example_fields:
  "timeLeft counting_example = 1500" "isRunning counting_example"
  "isWorkSession counting_example" "sessionsCompleted counting_example = 0"
  "timer counting_example = Some 0" "lastUpdateTime counting_example = 0"
  "intervals counting_example = {0}"
  by (simp_all add: counting_example_def start_fields fresh_fields default_config_def)

lemma paused_example_fields:
  "timeLeft paused_example = 1500" "\<not> isRunning paused_example"
  "isWorkSession paused_example" "sessionsCompleted paused_example = 0"
  "timer paused_example = None" "lastUpdateTime paused_example = 0"
  "intervals paused_example = {}"
  by (simp_all add: paused_example_def counting_example_fields)


subsection \<open>How the remaining time can change\<close>

lemma start_timeLeft_cases:
  "timeLeft (start cfg now s) = timeLeft s \<or>
   \<not> isRunning s \<and> timeLeft s = 0 \<and>
   timeLeft (start cfg now s) \<in>
     {workDuration cfg * 60, breakDuration cfg * 60, longBreakDuration cfg * 60}"
  by (cases "isRunning s") (simp_all add: start_running start_fields)

lemma tick_timeLeft_cases:
  assumes "count_inv s" and "isRunning s"
  shows "timeLeft (tick cfg now s) = timeLeft s \<or> timeLeft (tick cfg now s) < timeLeft s"
proof (cases now s rule: tick_cases)
  case idle
  then show ?thesis by (simp add: tick_idle)
next
  case expire
  then show ?thesis using assms by (simp add: tick_expire count_inv_def)
next
  case count
  then show ?thesis by (simp add: tick_count)
qed

lemma fire_timeLeft_cases:
  assumes "driver_inv s" and "count_inv s"
  shows "timeLeft (fire cfg now h s) = timeLeft s \<or>
         isRunning s \<and> timeLeft (fire cfg now h s) < timeLeft s"
proof (cases "h \<in> intervals s")
  case True
  with assms(1) have "isRunning s" by (auto simp: driver_inv_def)
  with tick_timeLeft_cases [OF assms(2), of cfg now] True show ?thesis
    by (simp add: fire_def)
next
  case False
  then show ?thesis by (simp add: fire_def)
qed

subsection \<open>A work interval run to its end, and the break after it\<close>

lemma notifications_fresh: "notifications (effects fresh) = []"
  by (simp add: fresh_def activate_def) (simp add: constructor_def notifications_def)

lemma nextHandle_counting_example: "nextHandle counting_example = 1"
  by (simp add: counting_example_def start_fields fresh_fields)

lemma notifications_counting_example: "notifications (effects counting_example) = []"
  by (simp add: counting_example_def start_fields fresh_fields notifications_fresh)

lemma work_done_example_eq:
  "work_done_example =
     onTimerEnd default_config (counting_example\<lparr>timeLeft := 0, lastUpdateTime := 1500000\<rparr>)"
  unfolding work_done_example_def
  by (subst tick_expire) (simp_all add: counting_example_fields)

lemma work_done_example_fields:
  "timeLeft work_done_example = 0" "\<not> isRunning work_done_example"
  "\<not> isWorkSession work_done_example" "sessionsCompleted work_done_example = 1"
  "timer work_done_example = None" "lastUpdateTime work_done_example = 1500000"
  "intervals work_done_example = {}" "nextHandle work_done_example = 1"
  "notifications (effects work_done_example) =
     notification_events ''Work session completed!'' default_config"
  by (simp_all add: work_done_example_eq counting_example_fields nextHandle_counting_example
      notifications_counting_example)

lemma reachable_work_done_example: "reachable work_done_example"
  using reachable_step [OF reachable_counting_example valid_default_config, of 1500000 "Fire 0"]
  by (simp add: work_done_example_def fire_def counting_example_fields)

lemma break_counting_example_fields:
  "timeLeft break_counting_example = 300" "isRunning break_counting_example"
  "\<not> isWorkSession break_counting_example" "sessionsCompleted break_counting_example = 1"
  "timer break_counting_example = Some 1" "lastUpdateTime break_counting_example = 1500000"
  "intervals break_counting_example = {1}"
  "notifications (effects break_counting_example) =
     notification_events ''Work session completed!'' default_config"
  by (simp_all add: break_counting_example_def start_fields work_done_example_fields
      isLongBreak_iff default_config_def)

lemma reachable_break_counting_example: "reachable break_counting_example"
  using reachable_step [OF reachable_work_done_example valid_default_config, of 1500000 Start]
  by (simp add: break_counting_example_def)

section \<open>The interval chosen by \<open>start\<close>\<close>

text \<open>
  Claim C1. For every state of the timer with \<open>remainingSeconds = 0\<close> and for all
  settings, \<open>start()\<close> sets \<open>remainingSeconds\<close> to \<open>workMinutes * 60\<close> in the Work phase; in
  the Break phase it sets it to \<open>longBreakMinutes * 60\<close> exactly when
  \<open>completedWorkSessions > 0\<close> and \<open>completedWorkSessions % sessionsBeforeLongBreak = 0\<close>,
  and to \<open>breakMinutes * 60\<close> otherwise. The states are those the timer can reach, where no
  time left means stopped, and every stopped state, reachable or not. For a positive
  dividend the remainder of JavaScript is zero exactly when the remainder of \<open>mod\<close> is, also
  for a zero or negative divisor.
\<close>

theorem start_selects_interval:
  assumes "reachable s \<or> \<not> isRunning s" and "timeLeft s = 0"
  shows "timeLeft (start cfg now s) =
           (if isWorkSession s then workDuration cfg * 60
            else if 0 < sessionsCompleted s \<and>
                    sessionsCompleted s mod sessionsBeforeLongBreak cfg = 0
                 then longBreakDuration cfg * 60
                 else breakDuration cfg * 60)"
proof -
  have "\<not> isRunning s"
  proof (cases "isRunning s")
    case True
    with assms(1) have "reachable s" by blast
    then have "count_inv s" by (rule reachable_count_inv)
    with True assms(2) show ?thesis by (simp add: count_inv_def)
  next
    case False
    then show ?thesis .
  qed
  with assms(2) show ?thesis by (simp add: start_fields isLongBreak_iff)
qed

text \<open>
  With the default settings: four completed sessions give the long break of 900 seconds,
  three give the short break of 300 seconds, the Work phase gives 1500 seconds, and the
  break reached by running a work interval to its end gives 300 seconds.
\<close>

theorem start_selects_interval_witness:
  "\<not> isRunning break_after_four \<and> timeLeft break_after_four = 0 \<and>
   timeLeft (start default_config 0 break_after_four) = 900 \<and>
   \<not> isRunning break_after_three \<and> timeLeft break_after_three = 0 \<and>
   timeLeft (start default_config 0 break_after_three) = 300 \<and>
   reachable fresh \<and> timeLeft fresh = 0 \<and>
   timeLeft (start default_config 0 fresh) = 1500 \<and>
   reachable work_done_example \<and> timeLeft work_done_example = 0 \<and>
   timeLeft (start default_config 1500000 work_done_example) = 300"
proof -
  have 4: "\<not> isRunning break_after_four" "timeLeft break_after_four = 0"
    "\<not> isWorkSession break_after_four" "sessionsCompleted break_after_four = 4"
    by (simp_all add: break_after_four_def fresh_fields)
  have 3: "\<not> isRunning break_after_three" "timeLeft break_after_three = 0"
    "\<not> isWorkSession break_after_three" "sessionsCompleted break_after_three = 3"
    by (simp_all add: break_after_three_def fresh_fields)
  have s4: "reachable break_after_four \<or> \<not> isRunning break_after_four"
    and s3: "reachable break_after_three \<or> \<not> isRunning break_after_three"
    using 3 4 by simp_all
  have f: "reachable fresh \<or> \<not> isRunning fresh"
    and d: "reachable work_done_example \<or> \<not> isRunning work_done_example"
    by (simp_all add: reachable_fresh reachable_work_done_example)
  show ?thesis
    using start_selects_interval [OF s4 4(2), of default_config 0]
      start_selects_interval [OF s3 3(2), of default_config 0]
      start_selects_interval [OF f fresh_fields(1), of default_config 0]
      start_selects_interval [OF d work_done_example_fields(1), of default_config 1500000]
    by (simp add: 3 4 fresh_fields work_done_example_fields reachable_fresh
        reachable_work_done_example default_config_def)
qed

section \<open>The countdown of \<open>tick\<close>\<close>

text \<open>
  What \<open>tick\<close> does, by the number \<open>e\<close> of whole seconds between the tick reference and
  \<open>now\<close>: nothing when there is none; otherwise it takes \<open>e\<close> off the remaining time, moves
  the reference to \<open>now\<close>, and runs the phase transition when nothing remains.
\<close>

lemma tick_by_elapsed:
  assumes "lastUpdateTime s + 1000 * e \<le> now" and "now < lastUpdateTime s + 1000 * (e + 1)"
  shows "(e < 1 \<longrightarrow> tick cfg now s = s) \<and>
         (1 \<le> e \<and> 0 < timeLeft s - e \<longrightarrow>
            timeLeft (tick cfg now s) = timeLeft s - e \<and>
            lastUpdateTime (tick cfg now s) = now \<and>
            isRunning (tick cfg now s) = isRunning s \<and>
            isWorkSession (tick cfg now s) = isWorkSession s \<and>
            sessionsCompleted (tick cfg now s) = sessionsCompleted s) \<and>
         (1 \<le> e \<and> timeLeft s - e \<le> 0 \<longrightarrow>
            tick cfg now s = onTimerEnd cfg (s\<lparr>timeLeft := timeLeft s - e, lastUpdateTime := now\<rparr>))"
proof -
  have e: "(now - lastUpdateTime s) div 1000 = e"
  proof (rule int_div_pos_eq [where r = "now - lastUpdateTime s - 1000 * e"])
  qed (use assms in simp_all)
  show ?thesis
    unfolding e [symmetric] by (simp add: tick_idle tick_count tick_expire)
qed

text \<open>
  Claim C2 says that \<open>tick()\<close>, after counting \<open>elapsed\<close> whole seconds, advances the tick
  reference by exactly \<open>elapsed * 1000\<close> milliseconds and not to \<open>now\<close>, so that no part of
  a second is lost. The code assigns \<open>now\<close>. On the work interval started at time 0, the
  callback at 1500 ms counts one second and leaves the reference at 1500 instead of 1000;
  the callback at 2000 ms then finds half a second and counts nothing, so that two seconds
  after the start 1499 seconds remain instead of 1498.
\<close>

theorem tick_drops_remainder:
  "lastUpdateTime counting_example = 0 \<and> timeLeft counting_example = 1500 \<and>
   (1500 - lastUpdateTime counting_example) div 1000 = 1 \<and>
   lastUpdateTime (tick default_config 1500 counting_example) = 1500 \<and>
   lastUpdateTime (tick default_config 1500 counting_example) \<noteq>
     lastUpdateTime counting_example + 1 * 1000 \<and>
   (2000 - lastUpdateTime counting_example) div 1000 = 2 \<and>
   timeLeft (tick default_config 2000 (tick default_config 1500 counting_example)) = 1499 \<and>
   timeLeft (tick default_config 2000 (tick default_config 1500 counting_example)) \<noteq>
     timeLeft counting_example - 2"
proof -
  have a: "timeLeft (tick default_config 1500 counting_example) = 1499"
    "lastUpdateTime (tick default_config 1500 counting_example) = 1500"
    by (simp_all add: tick_count counting_example_fields)
  have "tick default_config 2000 (tick default_config 1500 counting_example) =
      tick default_config 1500 counting_example"
    by (rule tick_idle) (simp add: a)
  then show ?thesis by (simp add: a counting_example_fields)
qed

text \<open>
  Claim C3, amended. For every state and every simulated elapsed time \<open>E \<ge> 1\<close> with
  \<open>remainingSeconds > E\<close>, \<open>tick()\<close> decrements \<open>remainingSeconds\<close> by exactly \<open>E\<close>, whether
  \<open>running\<close> is true or false: \<open>tick()\<close> does not test \<open>running\<close>. What keeps a stopped
  timer still is the driver: in every reachable state with \<open>running = false\<close> no interval
  timer is scheduled, so the callback of any handle leaves the entire state unchanged.
\<close>

theorem tick_decrements:
  "(1 \<le> E \<and> (now - lastUpdateTime s) div 1000 = E \<and> E < timeLeft s \<longrightarrow>
      timeLeft (tick cfg now s) = timeLeft s - E) \<and>
   (reachable s \<and> \<not> isRunning s \<longrightarrow> fire cfg now h s = s)"
  by (auto simp: tick_count fire_def reachable_stopped_no_driver)

theorem tick_decrements_witness:
  "(1::int) \<le> 5 \<and> (5000 - lastUpdateTime counting_example) div 1000 = 5 \<and>
   5 < timeLeft counting_example \<and>
   timeLeft (tick default_config 5000 counting_example) = timeLeft counting_example - 5 \<and>
   reachable paused_example \<and> \<not> isRunning paused_example \<and>
   fire default_config 5000 0 paused_example = paused_example"
  using tick_decrements [where E = 5 and now = 5000 and s = counting_example
        and cfg = default_config]
    tick_decrements [where s = paused_example and cfg = default_config and now = 5000
        and h = 0]
  by (simp add: counting_example_fields paused_example_fields reachable_paused_example)

text \<open>
  Claim C3 as stated fails where it says \<open>tick()\<close> is a no-op when \<open>running = false\<close>:
  called on the paused timer five seconds after its reference, \<open>tick()\<close> takes five seconds
  off the 1500 that remain.
\<close>

theorem tick_decrements_counterexample:
  "\<not> isRunning paused_example \<and> (5000 - lastUpdateTime paused_example) div 1000 = 5 \<and>
   timeLeft paused_example = 1500 \<and>
   timeLeft (tick default_config 5000 paused_example) = 1495 \<and>
   tick default_config 5000 paused_example \<noteq> paused_example"
proof -
  have a: "timeLeft (tick default_config 5000 paused_example) = 1495"
    by (simp add: tick_count paused_example_fields)
  then have "tick default_config 5000 paused_example \<noteq> paused_example"
    using paused_example_fields(1) by auto
  with a show ?thesis by (simp add: paused_example_fields)
qed

section \<open>The phase transition\<close>

text \<open>
  Claim C4. When a callback finds that \<open>remainingSeconds\<close> has reached 0 or less, the phase
  transition runs. From Work it adds one to \<open>completedWorkSessions\<close>, fires the end-of-work
  notification and switches to Break; from Break it fires the end-of-break notification
  and switches to Work, leaving the count as it is. In both cases \<open>remainingSeconds\<close> is 0,
  \<open>running\<close> is false, the handle is dropped and its interval timer is cancelled, so that in
  a reachable state no driver stays scheduled and the next phase waits for \<open>start()\<close>.
\<close>

theorem phase_transition:
  assumes "1 \<le> (now - lastUpdateTime s) div 1000"
    and "timeLeft s - (now - lastUpdateTime s) div 1000 \<le> 0"
  shows "timeLeft (tick cfg now s) = 0 \<and>
         \<not> isRunning (tick cfg now s) \<and>
         timer (tick cfg now s) = None \<and>
         intervals (tick cfg now s) = intervals s - set_option (timer s) \<and>
         (reachable s \<longrightarrow> intervals (tick cfg now s) = {}) \<and>
         (isWorkSession s \<longrightarrow>
            sessionsCompleted (tick cfg now s) = sessionsCompleted s + 1 \<and>
            \<not> isWorkSession (tick cfg now s) \<and>
            notifications (effects (tick cfg now s)) =
              notifications (effects s) @ notification_events ''Work session completed!'' cfg) \<and>
         (\<not> isWorkSession s \<longrightarrow>
            sessionsCompleted (tick cfg now s) = sessionsCompleted s \<and>
            isWorkSession (tick cfg now s) \<and>
            notifications (effects (tick cfg now s)) =
              notifications (effects s) @
              notification_events ''Break time over, ready to work!'' cfg)"
  using assms by (simp add: tick_expire reachable_cancelled)

text \<open>
  The work interval of 1500 seconds ends at 1500000 ms; the break of 300 seconds started
  then ends at 1800000 ms.
\<close>

theorem phase_transition_witness:
  "1 \<le> (1500000 - lastUpdateTime counting_example) div 1000 \<and>
   timeLeft counting_example - (1500000 - lastUpdateTime counting_example) div 1000 \<le> 0 \<and>
   isWorkSession counting_example \<and> reachable counting_example \<and>
   isRunning counting_example \<and>
   timeLeft (tick default_config 1500000 counting_example) = 0 \<and>
   \<not> isRunning (tick default_config 1500000 counting_example) \<and>
   intervals (tick default_config 1500000 counting_example) = {} \<and>
   sessionsCompleted (tick default_config 1500000 counting_example) = 1 \<and>
   \<not> isWorkSession (tick default_config 1500000 counting_example) \<and>
   notifications (effects (tick default_config 1500000 counting_example)) =
     [Beep, ShowInformationMessage (icon_tomato @ '' Work session completed!'')] \<and>
   1 \<le> (1800000 - lastUpdateTime break_counting_example) div 1000 \<and>
   timeLeft break_counting_example - (1800000 - lastUpdateTime break_counting_example) div 1000
     \<le> 0 \<and>
   \<not> isWorkSession break_counting_example \<and> reachable break_counting_example \<and>
   isRunning break_counting_example \<and>
   timeLeft (tick default_config 1800000 break_counting_example) = 0 \<and>
   \<not> isRunning (tick default_config 1800000 break_counting_example) \<and>
   intervals (tick default_config 1800000 break_counting_example) = {} \<and>
   sessionsCompleted (tick default_config 1800000 break_counting_example) = 1 \<and>
   isWorkSession (tick default_config 1800000 break_counting_example) \<and>
   notifications (effects (tick default_config 1800000 break_counting_example)) =
     [Beep, ShowInformationMessage (icon_tomato @ '' Work session completed!''),
      Beep, ShowInformationMessage (icon_tomato @ '' Break time over, ready to work!'')]"
proof -
  have w: "1 \<le> (1500000 - lastUpdateTime counting_example) div 1000"
    "timeLeft counting_example - (1500000 - lastUpdateTime counting_example) div 1000 \<le> 0"
    by (simp_all add: counting_example_fields)
  have b: "1 \<le> (1800000 - lastUpdateTime break_counting_example) div 1000"
    "timeLeft break_counting_example -
       (1800000 - lastUpdateTime break_counting_example) div 1000 \<le> 0"
    by (simp_all add: break_counting_example_fields)
  have n: "notification_events m default_config =
      [Beep, ShowInformationMessage (icon_tomato @ '' '' @ m)]" for m
    by (simp add: notification_events_def default_config_def)
  show ?thesis
    using phase_transition [OF w, of default_config] w
      phase_transition [OF b, of default_config] b
    by (simp add: counting_example_fields reachable_counting_example
        notifications_counting_example break_counting_example_fields
        reachable_break_counting_example n)
qed

section \<open>The commands \<open>reset\<close>, \<open>start\<close> and \<open>stop\<close>\<close>

text \<open>
  Claim C5. For every prior state, \<open>reset()\<close> yields \<open>remainingSeconds = 0\<close>, phase Work,
  \<open>completedWorkSessions = 0\<close> and \<open>running = false\<close>; it drops the handle and cancels its
  interval timer, so that after a reset of a reachable state no driver is scheduled.
\<close>

theorem reset_yields_idle:
  "timeLeft (reset cfg s) = 0 \<and> isWorkSession (reset cfg s) \<and>
   sessionsCompleted (reset cfg s) = 0 \<and> \<not> isRunning (reset cfg s) \<and>
   timer (reset cfg s) = None \<and>
   intervals (reset cfg s) = intervals s - set_option (timer s) \<and>
   (reachable s \<longrightarrow> intervals (reset cfg s) = {})"
  by (simp add: reachable_cancelled)

theorem reset_yields_idle_witness:
  "reachable break_counting_example \<and> intervals break_counting_example = {1} \<and>
   intervals (reset default_config break_counting_example) = {} \<and>
   timeLeft (reset default_config break_counting_example) = 0 \<and>
   isWorkSession (reset default_config break_counting_example) \<and>
   sessionsCompleted (reset default_config break_counting_example) = 0 \<and>
   \<not> isRunning (reset default_config break_counting_example)"
  using reset_yields_idle [where cfg = default_config and s = break_counting_example]
  by (simp add: reachable_break_counting_example break_counting_example_fields)

text \<open>
  Claim C6. For every state with \<open>running = true\<close>, \<open>start()\<close> changes nothing. Hence two
  calls of \<open>start()\<close> in a row, whatever the settings and the clock at each, produce the
  state of the first call, and from a reachable state exactly one interval timer is
  scheduled afterwards.
\<close>

theorem start_idempotent:
  "(isRunning s \<longrightarrow> start cfg now s = s) \<and>
   start cfg' now' (start cfg now s) = start cfg now s \<and>
   (reachable s \<longrightarrow> card (intervals (start cfg' now' (start cfg now s))) = 1)"
proof -
  have twice: "start cfg' now' (start cfg now s) = start cfg now s"
    by (rule start_running) simp
  have "card (intervals (start cfg now s)) = 1" if "reachable s"
  proof -
    have "driver_inv (start cfg now s)"
      using that by (simp add: reachable_driver_inv driver_inv_start)
    then obtain h where "intervals (start cfg now s) = {h}"
      by (auto simp: driver_inv_def)
    then show ?thesis by simp
  qed
  with twice show ?thesis by (simp add: start_running)
qed

theorem start_idempotent_witness:
  "isRunning counting_example \<and> start zero_work_config 7 counting_example = counting_example \<and>
   reachable fresh \<and>
   start zero_work_config 7 (start default_config 0 fresh) = start default_config 0 fresh \<and>
   card (intervals (start zero_work_config 7 (start default_config 0 fresh))) = 1"
proof -
  note a = start_idempotent [where s = counting_example and cfg = zero_work_config and now = 7]
  note b = start_idempotent [where s = fresh and cfg = default_config and now = 0
      and cfg' = zero_work_config and now' = 7]
  have r: "isRunning counting_example" by (rule counting_example_fields)
  from a r have "start zero_work_config 7 counting_example = counting_example"
    by blast
  moreover from b reachable_fresh
  have "start zero_work_config 7 (start default_config 0 fresh) = start default_config 0 fresh"
    and "card (intervals (start zero_work_config 7 (start default_config 0 fresh))) = 1"
    by blast+
  ultimately show ?thesis using r reachable_fresh by blast
qed

text \<open>
  Claim C7. For every state, \<open>stop()\<close> sets \<open>running = false\<close>, drops the handle and cancels
  its interval timer, so that after stopping a reachable state no driver is scheduled; it
  leaves \<open>remainingSeconds\<close>, the phase and \<open>completedWorkSessions\<close> as they were.
\<close>

theorem stop_pauses:
  "\<not> isRunning (stop cfg s) \<and> timer (stop cfg s) = None \<and>
   intervals (stop cfg s) = intervals s - set_option (timer s) \<and>
   (reachable s \<longrightarrow> intervals (stop cfg s) = {}) \<and>
   timeLeft (stop cfg s) = timeLeft s \<and>
   isWorkSession (stop cfg s) = isWorkSession s \<and>
   sessionsCompleted (stop cfg s) = sessionsCompleted s"
  by (simp add: reachable_cancelled)

theorem stop_pauses_witness:
  "reachable counting_example \<and> intervals counting_example = {0} \<and>
   intervals (stop default_config counting_example) = {} \<and>
   \<not> isRunning (stop default_config counting_example) \<and>
   timeLeft (stop default_config counting_example) = 1500"
  using stop_pauses [where cfg = default_config and s = counting_example]
  by (simp add: reachable_counting_example counting_example_fields)

text \<open>
  Claim C10. For every state with \<open>running = false\<close> and \<open>remainingSeconds > 0\<close>, a paused
  countdown, \<open>start()\<close> resumes without computing an interval: \<open>remainingSeconds\<close>, the phase
  and \<open>completedWorkSessions\<close> stay as they were, \<open>running\<close> becomes true and the tick
  reference is the current time.
\<close>

theorem start_resumes:
  assumes "\<not> isRunning s" and "0 < timeLeft s"
  shows "timeLeft (start cfg now s) = timeLeft s \<and>
         isWorkSession (start cfg now s) = isWorkSession s \<and>
         sessionsCompleted (start cfg now s) = sessionsCompleted s \<and>
         isRunning (start cfg now s) \<and>
         lastUpdateTime (start cfg now s) = now"
  using assms by (simp add: start_fields)

theorem start_resumes_witness:
  "\<not> isRunning paused_example \<and> 0 < timeLeft paused_example \<and>
   timeLeft (start zero_work_config 77000 paused_example) = 1500 \<and>
   isWorkSession (start zero_work_config 77000 paused_example) \<and>
   sessionsCompleted (start zero_work_config 77000 paused_example) = 0 \<and>
   isRunning (start zero_work_config 77000 paused_example) \<and>
   lastUpdateTime (start zero_work_config 77000 paused_example) = 77000"
  using start_resumes [where s = paused_example and cfg = zero_work_config and now = 77000]
  by (simp add: paused_example_fields)

section \<open>The rendered time\<close>

text \<open>
  The time string of a remaining time \<open>R \<ge> 0\<close>: the minutes \<open>R div 60\<close>, a colon and the
  seconds \<open>R mod 60\<close>, each padded with a zero to two characters.
\<close>

lemma timeStr_zero_pad2:
  assumes "0 \<le> R"
  shows "timeStr R = zero_pad2 (nat (R div 60)) @ '':'' @ zero_pad2 (nat (R mod 60))"
proof -
  have m: "0 \<le> R div 60" using assms by simp
  have s: "trunc_rem R 60 = R mod 60" using assms by (simp add: trunc_rem_nonneg)
  have s0: "\<not> R mod 60 < 0" by simp
  show ?thesis
    unfolding timeStr_def Let_def s String_int_def
    using m s0 by (simp only: if_False padStart_zero_pad2 not_less [symmetric])
qed

text \<open>Every command and every callback leaves the status bar up to date.\<close>

lemma shown_rendered: "shown (broadcastUpdate cfg (updateStatusBar x))"
  by (simp add: shown_def) (simp add: updateStatusBar_def Let_def)

lemma shown_start: "shown s \<Longrightarrow> shown (start cfg now s)"
  by (cases "isRunning s") (simp_all add: start_running, simp add: start_def Let_def shown_rendered)

lemma shown_stop: "shown (stop cfg s)"
  by (simp add: stop_def Let_def shown_rendered)

lemma shown_reset: "shown (reset cfg s)"
  by (simp add: reset_def Let_def shown_rendered)

lemma shown_onTimerEnd: "shown (onTimerEnd cfg s)"
  by (simp add: onTimerEnd_def Let_def shown_rendered)

lemma shown_tick: "shown s \<Longrightarrow> shown (tick cfg now s)"
  by (simp add: tick_def Let_def shown_rendered shown_onTimerEnd)

lemma shown_panel:
  "shown s \<Longrightarrow> shown (s\<lparr>panelVisible := b\<rparr>)"
  "shown s \<Longrightarrow> shown (broadcastUpdate cfg s)"
  by (simp_all add: shown_def) (simp_all add: updateStatusBar_def Let_def)

lemma shown_exec: "shown s \<Longrightarrow> shown (exec cfg now c s)"
  by (cases c)
    (simp_all add: shown_start shown_stop shown_reset shown_tick shown_panel
      toggleTimer_def showPanel_def fire_def)

lemma reachable_shown: "reachable s \<Longrightarrow> shown s"
proof (induction rule: reachable.induct)
  case (reachable_init now)
  show ?case by (simp add: shown_def activate_def) (simp add: updateStatusBar_def Let_def)
next
  case (reachable_step s cfg now c)
  then show ?case by (simp add: shown_exec)
qed

text \<open>
  Claim C8. For every state with \<open>remainingSeconds\<close> \<open>R \<ge> 0\<close>, \<open>updateStatusBar\<close> writes
  the label made of the icon of the phase, its name, the time and the run indicator, where
  the time is the minutes \<open>R div 60\<close>, a colon and the seconds \<open>R mod 60\<close>, each a decimal
  numeral padded with a zero to two characters: the seconds are always exactly two digits,
  the minutes at least two, and each part reads back as its number. In every reachable
  state this label is the text the status bar shows.
\<close>

theorem statusBar_MM_SS:
  assumes "0 \<le> timeLeft s"
  shows "statusBarText (updateStatusBar s) =
           (if isWorkSession s then icon_tomato else icon_coffee) @ '' '' @
           (if isWorkSession s then ''Work'' else ''Break'') @ '' '' @
           zero_pad2 (nat (timeLeft s div 60)) @ '':'' @ zero_pad2 (nat (timeLeft s mod 60)) @
           '' '' @ (if isRunning s then mark_running else mark_stopped) \<and>
         (reachable s \<longrightarrow> statusBarText s = statusBarText (updateStatusBar s)) \<and>
         timeStr (timeLeft s) =
           zero_pad2 (nat (timeLeft s div 60)) @ '':'' @ zero_pad2 (nat (timeLeft s mod 60)) \<and>
         dec_value (zero_pad2 (nat (timeLeft s div 60))) = nat (timeLeft s div 60) \<and>
         dec_value (zero_pad2 (nat (timeLeft s mod 60))) = nat (timeLeft s mod 60) \<and>
         2 \<le> length (zero_pad2 (nat (timeLeft s div 60))) \<and>
         zero_pad2 (nat (timeLeft s mod 60)) =
           [digit_char (nat (timeLeft s mod 60) div 10), digit_char (nat (timeLeft s mod 60) mod 10)]"
proof -
  let ?R = "timeLeft s"
  have a: "timeStr ?R = zero_pad2 (nat (?R div 60)) @ '':'' @ zero_pad2 (nat (?R mod 60))"
    using assms by (rule timeStr_zero_pad2)
  have s60: "nat (?R mod 60) < 100"
    using pos_mod_bound [of 60 ?R] by linarith
  have b: "zero_pad2 (nat (?R mod 60)) =
      [digit_char (nat (?R mod 60) div 10), digit_char (nat (?R mod 60) mod 10)]"
    using s60 by (rule zero_pad2_below_100)
  have t: "statusBarText (updateStatusBar s) =
           (if isWorkSession s then icon_tomato else icon_coffee) @ '' '' @
           (if isWorkSession s then ''Work'' else ''Break'') @ '' '' @
           timeStr ?R @ '' '' @ (if isRunning s then mark_running else mark_stopped)"
    by (simp add: updateStatusBar_def Let_def)
  have u: "statusBarText (updateStatusBar s) =
           (if isWorkSession s then icon_tomato else icon_coffee) @ '' '' @
           (if isWorkSession s then ''Work'' else ''Break'') @ '' '' @
           zero_pad2 (nat (?R div 60)) @ '':'' @ zero_pad2 (nat (?R mod 60)) @
           '' '' @ (if isRunning s then mark_running else mark_stopped)"
    unfolding t a by simp
  have r: "reachable s \<longrightarrow> statusBarText s = statusBarText (updateStatusBar s)"
    using reachable_shown [of s] by (simp add: shown_def)
  from u r a b dec_value_zero_pad2 [of "nat (?R div 60)"] dec_value_zero_pad2 [of "nat (?R mod 60)"]
    length_zero_pad2 [of "nat (?R div 60)"]
  show ?thesis by blast
qed

text \<open>
  One second into the work interval the status bar reads \<open>Work 24:59\<close> between the tomato
  and the mark of a running timer.
\<close>

theorem statusBar_MM_SS_witness:
  "0 \<le> timeLeft (tick default_config 1000 counting_example) \<and>
   reachable (tick default_config 1000 counting_example) \<and>
   timeLeft (tick default_config 1000 counting_example) = 1499 \<and>
   statusBarText (tick default_config 1000 counting_example) =
     icon_tomato @ '' Work 24:59 '' @ mark_running \<and>
   timeStr 1499 = ''24:59'' \<and> dec_value ''24'' = 24 \<and> dec_value ''59'' = 59"
proof -
  let ?s = "tick default_config 1000 counting_example"
  have f: "timeLeft ?s = 1499" "isRunning ?s" "isWorkSession ?s"
    by (simp_all add: tick_count counting_example_fields)
  have h: "0 \<le> timeLeft ?s" by (simp add: f)
  have r: "reachable ?s"
    using reachable_step [OF reachable_counting_example valid_default_config, of 1000 "Fire 0"]
    by (simp add: fire_def counting_example_fields)
  have e: "nat (1499 div 60) = 24" "nat (1499 mod 60) = 59" by simp_all
  have z: "zero_pad2 24 = ''24''" "zero_pad2 59 = ''59''" by code_simp+
  from statusBar_MM_SS [OF h] r
  have "statusBarText ?s = statusBarText (updateStatusBar ?s)"
    and "statusBarText (updateStatusBar ?s) =
           (if isWorkSession ?s then icon_tomato else icon_coffee) @ '' '' @
           (if isWorkSession ?s then ''Work'' else ''Break'') @ '' '' @
           zero_pad2 (nat (timeLeft ?s div 60)) @ '':'' @ zero_pad2 (nat (timeLeft ?s mod 60)) @
           '' '' @ (if isRunning ?s then mark_running else mark_stopped)"
    and "timeStr (timeLeft ?s) =
           zero_pad2 (nat (timeLeft ?s div 60)) @ '':'' @ zero_pad2 (nat (timeLeft ?s mod 60))"
    and "dec_value (zero_pad2 (nat (timeLeft ?s div 60))) = nat (timeLeft ?s div 60)"
    and "dec_value (zero_pad2 (nat (timeLeft ?s mod 60))) = nat (timeLeft ?s mod 60)"
    by blast+
  then have "statusBarText ?s = icon_tomato @ '' Work 24:59 '' @ mark_running"
    and "timeStr 1499 = ''24:59''" and "dec_value ''24'' = 24" and "dec_value ''59'' = 59"
    by (simp_all add: f e z)
  then show ?thesis using h r f by simp
qed

section \<open>How \<open>remainingSeconds\<close> evolves\<close>

text \<open>
  Claim C9, amended. In every state reachable from the initial state under positive
  settings, \<open>remainingSeconds\<close> is an integer \<open>\<ge> 0\<close>, and a command or callback changes it
  in three ways only: a callback of the driver while running makes it smaller; \<open>start()\<close>,
  directly or through the toggle, on a stopped timer with \<open>remainingSeconds = 0\<close> sets it
  from the configuration; \<open>reset()\<close> sets it to 0, also while the timer is stopped.
\<close>

theorem remaining_seconds_changes:
  assumes "reachable s" and "valid_config cfg"
  shows "0 \<le> timeLeft s \<and> 0 \<le> timeLeft (exec cfg now c s) \<and>
         (timeLeft (exec cfg now c s) \<noteq> timeLeft s \<longrightarrow>
            (\<exists>h. c = Fire h) \<and> isRunning s \<and> timeLeft (exec cfg now c s) < timeLeft s
          \<or> (c = Start \<or> c = Toggle) \<and> \<not> isRunning s \<and> timeLeft s = 0 \<and>
            timeLeft (exec cfg now c s) \<in>
              {workDuration cfg * 60, breakDuration cfg * 60, longBreakDuration cfg * 60}
          \<or> c = Reset \<and> timeLeft (exec cfg now c s) = 0)"
proof -
  have d: "driver_inv s" and k: "count_inv s"
    using assms(1) by (simp_all add: reachable_driver_inv reachable_count_inv)
  have "reachable (exec cfg now c s)"
    using assms by (rule reachable_step)
  then have "count_inv (exec cfg now c s)" by (rule reachable_count_inv)
  then have after: "0 \<le> timeLeft (exec cfg now c s)" by (simp add: count_inv_def)
  from k have before: "0 \<le> timeLeft s" by (simp add: count_inv_def)
  have change: "timeLeft (exec cfg now c s) \<noteq> timeLeft s \<longrightarrow>
            (\<exists>h. c = Fire h) \<and> isRunning s \<and> timeLeft (exec cfg now c s) < timeLeft s
          \<or> (c = Start \<or> c = Toggle) \<and> \<not> isRunning s \<and> timeLeft s = 0 \<and>
            timeLeft (exec cfg now c s) \<in>
              {workDuration cfg * 60, breakDuration cfg * 60, longBreakDuration cfg * 60}
          \<or> c = Reset \<and> timeLeft (exec cfg now c s) = 0"
  proof (cases c)
    case Start
    with start_timeLeft_cases [of cfg now s] show ?thesis by auto
  next
    case Stop
    then show ?thesis by simp
  next
    case Reset
    then show ?thesis by simp
  next
    case Toggle
    show ?thesis
    proof (cases "isRunning s")
      case True
      with Toggle show ?thesis by (simp add: toggleTimer_def)
    next
      case False
      with Toggle start_timeLeft_cases [of cfg now s] show ?thesis
        by (auto simp: toggleTimer_def)
    qed
  next
    case ShowPanel
    then show ?thesis by (simp add: showPanel_def)
  next
    case HidePanel
    then show ?thesis by simp
  next
    case (Fire h)
    with fire_timeLeft_cases [OF d k, of cfg now h] show ?thesis by auto
  qed
  from before after change show ?thesis by blast
qed

theorem remaining_seconds_changes_witness:
  "reachable fresh \<and> valid_config default_config \<and> 0 \<le> timeLeft fresh \<and>
   timeLeft (exec default_config 0 Start fresh) \<noteq> timeLeft fresh \<and>
   \<not> isRunning fresh \<and> timeLeft fresh = 0 \<and>
   timeLeft (exec default_config 0 Start fresh) = workDuration default_config * 60"
proof -
  have w: "workDuration default_config * 60 = 1500" by (simp add: default_config_def)
  show ?thesis
    using remaining_seconds_changes [OF reachable_fresh valid_default_config, of 0 Start]
    by (simp add: reachable_fresh valid_default_config fresh_fields start_fields w)
qed

text \<open>
  Claim C9 as stated fails where it says \<open>remainingSeconds\<close> is only mutated while
  running, phase transitions apart. The paused timer is reachable and not running, with
  1500 seconds left; \<open>reset()\<close> sets them to 0 without a change of phase, and 0 is none of
  the configured durations.
\<close>

theorem remaining_seconds_changes_counterexample:
  "reachable paused_example \<and> \<not> isRunning paused_example \<and>
   timeLeft paused_example = 1500 \<and>
   timeLeft (exec default_config 9000 Reset paused_example) = 0 \<and>
   isWorkSession (exec default_config 9000 Reset paused_example) = isWorkSession paused_example \<and>
   workDuration default_config * 60 \<noteq> 0 \<and> breakDuration default_config * 60 \<noteq> 0 \<and>
   longBreakDuration default_config * 60 \<noteq> 0"
  by (simp add: reachable_paused_example paused_example_fields default_config_def)

end
